theory Spec2Isabelle
  imports Complex_Main "HOL-Library.AList" "HOL-Library.Sublist"
begin

section \<open>The training stage \<open>s5_Model_Training.py\<close>\<close>

text \<open>
  The stage loads a training set, runs a randomized hyper-parameter search, computes five
  regression metrics and records them with a tracking client. This theory embeds the two
  classes of the module, \<open>ModelTrainerOptimizerClass\<close> and \<open>MLflowLoggerClass\<close>, as
  HOL functions.

  Numbers. A floating-point value is modelled by a real number or one of the three
  special values of IEEE arithmetic: rounding and overflow are idealised away, the
  propagation of \<open>nan\<close> and of the infinities is kept. A float is either a Python
  \<open>float\<close> or a numpy \<open>float64\<close> scalar; the two differ when a division meets a zero
  divisor: Python raises \<open>ZeroDivisionError\<close>, numpy returns \<open>inf\<close> or \<open>nan\<close> with a
  warning. Python integers are \<open>int\<close>.
\<close>

subsection \<open>Exceptions and numbers\<close>

datatype py_error =
    ValueError
  | IndexError
  | TypeError
  | ZeroDivisionError
  | AttributeError
  | OSError
  | NotFittedError
  | MlflowException

datatype xreal = Fin real | PosInf | NegInf | NaN

datatype scalar_kind = python_float | numpy_float64

type_synonym pyfloat = "scalar_kind \<times> xreal"


text \<open>Subtraction, multiplication and division of IEEE values.\<close>

fun xsub :: "xreal \<Rightarrow> xreal \<Rightarrow> xreal" where
  "xsub NaN _ = NaN"
| "xsub _ NaN = NaN"
| "xsub (Fin a) (Fin b) = Fin (a - b)"
| "xsub (Fin a) PosInf = NegInf"
| "xsub (Fin a) NegInf = PosInf"
| "xsub PosInf PosInf = NaN"
| "xsub PosInf _ = PosInf"
| "xsub NegInf NegInf = NaN"
| "xsub NegInf _ = NegInf"

fun xneg :: "xreal \<Rightarrow> xreal" where
  "xneg (Fin a) = Fin (- a)"
| "xneg PosInf = NegInf"
| "xneg NegInf = PosInf"
| "xneg NaN = NaN"

text \<open>An infinity scaled by a finite factor: the sign of the factor decides.\<close>

definition xscale :: "xreal \<Rightarrow> real \<Rightarrow> xreal" where
  "xscale v b = (if b > 0 then v else if b < 0 then xneg v else NaN)"

fun xmul :: "xreal \<Rightarrow> xreal \<Rightarrow> xreal" where
  "xmul NaN _ = NaN"
| "xmul _ NaN = NaN"
| "xmul (Fin a) (Fin b) = Fin (a * b)"
| "xmul (Fin a) PosInf = xscale PosInf a"
| "xmul (Fin a) NegInf = xscale NegInf a"
| "xmul PosInf (Fin b) = xscale PosInf b"
| "xmul NegInf (Fin b) = xscale NegInf b"
| "xmul PosInf PosInf = PosInf"
| "xmul PosInf NegInf = NegInf"
| "xmul NegInf PosInf = NegInf"
| "xmul NegInf NegInf = PosInf"

text \<open>
  IEEE division: a finite nonzero value over zero is an infinity, zero over zero is
  \<open>nan\<close>. The zero divisors of this program are converted integers, so the zero is
  positive.
\<close>

fun xdiv :: "xreal \<Rightarrow> xreal \<Rightarrow> xreal" where
  "xdiv NaN _ = NaN"
| "xdiv _ NaN = NaN"
| "xdiv (Fin a) (Fin b) =
     (if b \<noteq> 0 then Fin (a / b)
      else if a > 0 then PosInf else if a < 0 then NegInf else NaN)"
| "xdiv (Fin a) _ = Fin 0"
| "xdiv PosInf (Fin b) = (if b < 0 then NegInf else PosInf)"
| "xdiv NegInf (Fin b) = (if b < 0 then PosInf else NegInf)"
| "xdiv _ _ = NaN"

text \<open>Comparison \<open>a <= b\<close>: every comparison with \<open>nan\<close> is false.\<close>

fun xle :: "xreal \<Rightarrow> xreal \<Rightarrow> bool" where
  "xle NaN _ = False"
| "xle _ NaN = False"
| "xle (Fin a) (Fin b) = (a \<le> b)"
| "xle NegInf _ = True"
| "xle _ PosInf = True"
| "xle _ _ = False"

text \<open>
  The operators of the expression \<open>1 - (1 - r2) * (n - 1) / (n - p - 1)\<close>: an integer
  on one side, a float on the other. The result has the kind of the float operand.
  Only a Python \<open>float\<close> raises on a zero divisor.
\<close>

definition int_sub_float :: "int \<Rightarrow> pyfloat \<Rightarrow> pyfloat" where
  "int_sub_float i x = (fst x, xsub (Fin (real_of_int i)) (snd x))"

definition float_mul_int :: "pyfloat \<Rightarrow> int \<Rightarrow> pyfloat" where
  "float_mul_int x i = (fst x, xmul (snd x) (Fin (real_of_int i)))"

definition float_truediv_int :: "pyfloat \<Rightarrow> int \<Rightarrow> py_error + pyfloat" where
  "float_truediv_int x i =
     (if fst x = python_float \<and> i = 0 then Inl ZeroDivisionError
      else Inr (fst x, xdiv (snd x) (Fin (real_of_int i))))"

text \<open>\<open>np.sqrt\<close> returns a numpy scalar; of a negative number it is \<open>nan\<close>.\<close>

fun xsqrt :: "xreal \<Rightarrow> xreal" where
  "xsqrt (Fin a) = (if a < 0 then NaN else Fin (sqrt a))"
| "xsqrt PosInf = PosInf"
| "xsqrt _ = NaN"

definition np_sqrt :: "pyfloat \<Rightarrow> pyfloat" where
  "np_sqrt x = (numpy_float64, xsqrt (snd x))"

subsection \<open>Arrays\<close>

text \<open>
  A numpy array is its shape tuple and its entries in row-major order. A target or
  prediction vector is one-dimensional and is modelled by the list of its entries.
\<close>

record ndarray =
  shape :: "nat list"
  data :: "real list"

type_synonym vector = "real list"

text \<open>\<open>a.shape[i]\<close>: indexing the shape tuple out of range raises \<open>IndexError\<close>.\<close>

definition shape_at :: "ndarray \<Rightarrow> nat \<Rightarrow> py_error + int" where
  "shape_at a i = (if i < length (shape a) then Inr (int (shape a ! i)) else Inl IndexError)"

subsection \<open>The metric functions of scikit-learn\<close>

text \<open>
  \<open>mean_squared_error\<close>, \<open>mean_absolute_error\<close> and \<open>r2_score\<close> are library functions
  called by \<open>calculate_metrics\<close>; they are modelled after the library's documented
  behaviour on one-dimensional targets without sample weights. All three validate their
  arguments first: vectors of different lengths and empty vectors raise \<open>ValueError\<close>.
  Whether a score comes back as a Python \<open>float\<close> or as a numpy scalar depends on the
  release of the library, so the kind \<open>sk\<close> of the scalars it returns is a parameter.
\<close>

definition check_reg_targets :: "vector \<Rightarrow> vector \<Rightarrow> py_error + unit" where
  "check_reg_targets y_true y_pred =
     (if length y_true \<noteq> length y_pred then Inl ValueError
      else if y_true = [] then Inl ValueError
      else Inr ())"

definition mean :: "real list \<Rightarrow> real" where
  "mean xs = sum_list xs / real (length xs)"

definition sq_errors :: "vector \<Rightarrow> vector \<Rightarrow> real list" where
  "sq_errors y_true y_pred = map (\<lambda>(a, b). (a - b)\<^sup>2) (zip y_true y_pred)"

definition abs_errors :: "vector \<Rightarrow> vector \<Rightarrow> real list" where
  "abs_errors y_true y_pred = map (\<lambda>(a, b). \<bar>a - b\<bar>) (zip y_true y_pred)"

definition mean_squared_error :: "scalar_kind \<Rightarrow> vector \<Rightarrow> vector \<Rightarrow> py_error + pyfloat" where
  "mean_squared_error sk y_true y_pred =
     (case check_reg_targets y_true y_pred of
        Inl e \<Rightarrow> Inl e
      | Inr _ \<Rightarrow> Inr (sk, Fin (mean (sq_errors y_true y_pred))))"

definition mean_absolute_error :: "scalar_kind \<Rightarrow> vector \<Rightarrow> vector \<Rightarrow> py_error + pyfloat" where
  "mean_absolute_error sk y_true y_pred =
     (case check_reg_targets y_true y_pred of
        Inl e \<Rightarrow> Inl e
      | Inr _ \<Rightarrow> Inr (sk, Fin (mean (abs_errors y_true y_pred))))"

text \<open>
  \<open>r2_score\<close>: with fewer than two samples the score is undefined and the library
  returns \<open>float("nan")\<close>, a Python float in every release, with a warning. Otherwise
  the score is one minus the ratio of the residual sum of squares to the total sum of
  squares; for a constant target the ratio is undefined and the library returns \<open>1.0\<close>
  for a perfect prediction and \<open>0.0\<close> for any other.
\<close>

definition ss_res :: "vector \<Rightarrow> vector \<Rightarrow> real" where
  "ss_res y_true y_pred = sum_list (sq_errors y_true y_pred)"

definition ss_tot :: "vector \<Rightarrow> real" where
  "ss_tot y_true = sum_list (map (\<lambda>a. (a - mean y_true)\<^sup>2) y_true)"

definition r2_value :: "vector \<Rightarrow> vector \<Rightarrow> real" where
  "r2_value y_true y_pred =
     (let numerator = ss_res y_true y_pred; denominator = ss_tot y_true
      in if denominator \<noteq> 0 then 1 - numerator / denominator
         else if numerator \<noteq> 0 then 0
         else 1)"

definition r2_score :: "scalar_kind \<Rightarrow> vector \<Rightarrow> vector \<Rightarrow> py_error + pyfloat" where
  "r2_score sk y_true y_pred =
     (case check_reg_targets y_true y_pred of
        Inl e \<Rightarrow> Inl e
      | Inr _ \<Rightarrow>
          if length y_pred < 2 then Inr (python_float, NaN)
          else Inr (sk, Fin (r2_value y_true y_pred)))"

subsection \<open>\<open>ModelTrainerOptimizerClass.calculate_metrics\<close>\<close>

text \<open>
  The body in the order the statements run; the first exception ends the call. The
  method does not read \<open>self\<close>.
  \<^verbatim>\<open>
  mse = mean_squared_error(actual_y, predicted_y)
  mae = mean_absolute_error(actual_y, predicted_y)
  rmse = np.sqrt(mse)
  r2 = r2_score(actual_y, predicted_y)
  n = len(actual_y)
  p = actual_X.shape[1]
  aR2 = 1 - (1 - r2) * (n - 1) / (n - p - 1)
  return mse, mae, rmse, r2, aR2
  \<close>
\<close>

type_synonym metrics = "pyfloat \<times> pyfloat \<times> pyfloat \<times> pyfloat \<times> pyfloat"

definition adjusted_r2 :: "pyfloat \<Rightarrow> int \<Rightarrow> int \<Rightarrow> py_error + pyfloat" where
  "adjusted_r2 r2 n p =
     (case float_truediv_int (float_mul_int (int_sub_float 1 r2) (n - 1)) (n - p - 1) of
        Inl e \<Rightarrow> Inl e
      | Inr q \<Rightarrow> Inr (int_sub_float 1 q))"

definition calculate_metrics ::
  "scalar_kind \<Rightarrow> ndarray \<Rightarrow> vector \<Rightarrow> vector \<Rightarrow> py_error + metrics" where
  "calculate_metrics sk actual_X actual_y predicted_y =
     (case mean_squared_error sk actual_y predicted_y of
        Inl e \<Rightarrow> Inl e
      | Inr mse \<Rightarrow>
     (case mean_absolute_error sk actual_y predicted_y of
        Inl e \<Rightarrow> Inl e
      | Inr mae \<Rightarrow>
     (let rmse = np_sqrt mse in
     (case r2_score sk actual_y predicted_y of
        Inl e \<Rightarrow> Inl e
      | Inr r2 \<Rightarrow>
     (let n = int (length actual_y) in
     (case shape_at actual_X 1 of
        Inl e \<Rightarrow> Inl e
      | Inr p \<Rightarrow>
     (case adjusted_r2 r2 n p of
        Inl e \<Rightarrow> Inl e
      | Inr aR2 \<Rightarrow> Inr (mse, mae, rmse, r2, aR2))))))))"

subsection \<open>Files, data frames and the trainer object\<close>

text \<open>
  \<open>pd.read_csv\<close> and \<open>yaml.safe_load\<close> read the file system, which is a parameter of
  the model: for every path, the frame or the document that the reader returns, or the
  exception it raises. A data frame is its column names and its rows of numbers; the
  reader builds frames in which every row has one cell for each column.
\<close>

record dataframe =
  columns :: "string list"
  rows :: "real list list"

definition well_formed :: "dataframe \<Rightarrow> bool" where
  "well_formed df = list_all (\<lambda>r. length r = length (columns df)) (rows df)"

record 'cfg files =
  read_csv :: "string \<Rightarrow> py_error + dataframe"
  safe_load :: "string \<Rightarrow> py_error + 'cfg"

text \<open>\<open>np.array(df)\<close>: the two-dimensional array of the cells, row after row.\<close>

definition np_array :: "dataframe \<Rightarrow> ndarray" where
  "np_array df = \<lparr>shape = [length (rows df), length (columns df)], data = concat (rows df)\<rparr>"

text \<open>\<open>a.ravel()\<close>: the entries in row-major order, as a one-dimensional array.\<close>

definition ravel :: "ndarray \<Rightarrow> vector" where
  "ravel a = data a"

text \<open>
  The object \<open>self\<close>. \<open>__init__\<close> stores the three paths; the attributes \<open>X_train\<close>,
  \<open>y_train\<close> and \<open>params\<close> do not exist until the loaders have set them.
\<close>

record 'cfg trainer =
  X_train_path :: string
  y_train_path :: string
  params_path :: string
  X_train :: "ndarray option"
  y_train :: "vector option"
  params :: "'cfg option"

definition ModelTrainerOptimizerClass :: "string \<Rightarrow> string \<Rightarrow> string \<Rightarrow> 'cfg trainer" where
  "ModelTrainerOptimizerClass X_path y_path p_path =
     \<lparr>X_train_path = X_path, y_train_path = y_path, params_path = p_path,
      X_train = None, y_train = None, params = None\<rparr>"

text \<open>Each loader returns the loaded value and the updated object.\<close>

definition load_X_train :: "'cfg files \<Rightarrow> 'cfg trainer \<Rightarrow> py_error + ndarray \<times> 'cfg trainer" where
  "load_X_train fs self =
     (case read_csv fs (X_train_path self) of
        Inl e \<Rightarrow> Inl e
      | Inr df \<Rightarrow> (let a = np_array df in Inr (a, self\<lparr>X_train := Some a\<rparr>)))"

definition load_y_train :: "'cfg files \<Rightarrow> 'cfg trainer \<Rightarrow> py_error + vector \<times> 'cfg trainer" where
  "load_y_train fs self =
     (case read_csv fs (y_train_path self) of
        Inl e \<Rightarrow> Inl e
      | Inr df \<Rightarrow> (let v = ravel (np_array df) in Inr (v, self\<lparr>y_train := Some v\<rparr>)))"

definition load_params :: "'cfg files \<Rightarrow> 'cfg trainer \<Rightarrow> py_error + 'cfg \<times> 'cfg trainer" where
  "load_params fs self =
     (case safe_load fs (params_path self) of
        Inl e \<Rightarrow> Inl e
      | Inr c \<Rightarrow> Inr (c, self\<lparr>params := Some c\<rparr>))"

subsection \<open>Estimators and \<open>get_Model_Name\<close>\<close>

text \<open>
  An estimator object: the name of its class, its hyper-parameters by name, and what a
  fit has learned, if it was fitted. Hyper-parameter values are Python values.
\<close>

datatype pyval = PNone | PBool bool | PInt int | PFloat real | PStr string

type_synonym hyper = "(string \<times> pyval) list"

record 'f estimator =
  class_name :: string
  hyper_params :: hyper
  fitted :: "'f option"

text \<open>
  \<open>ElasticNet()\<close>, as the main script builds it: an unfitted object of the library's
  class \<open>ElasticNet\<close> with the defaults of its constructor.
\<close>

definition ElasticNet :: "'f estimator" where
  "ElasticNet =
     \<lparr>class_name = ''ElasticNet'',
      hyper_params =
        [(''alpha'', PFloat 1), (''l1_ratio'', PFloat (1 / 2)), (''fit_intercept'', PBool True),
         (''precompute'', PBool False), (''max_iter'', PInt 1000), (''copy_X'', PBool True),
         (''tol'', PFloat (1 / 10000)), (''warm_start'', PBool False),
         (''positive'', PBool False), (''random_state'', PNone),
         (''selection'', PStr ''cyclic'')],
      fitted = None\<rparr>"

text \<open>
  \<open>str(model.__class__.__name__)\<close>: the name is a string already and \<open>str\<close> returns
  it unchanged. The method reads the class of its argument and nothing else; it
  assigns to no attribute of \<open>self\<close> or of the model, so the model is a function of the
  model object alone.
\<close>

definition get_Model_Name :: "'f estimator \<Rightarrow> string" where
  "get_Model_Name model = class_name model"

subsection \<open>The randomized search of scikit-learn\<close>

text \<open>
  \<open>train_model\<close> hands the work to \<open>RandomizedSearchCV\<close> and to the methods of the
  estimator, all library code. They are modelled after the library's documented
  behaviour, for a regression estimator, as far as \<open>train_model\<close> depends on it.

  What a class of estimators computes is a parameter: the state that \<open>fit\<close> learns from
  the hyper-parameters and the data, or the exception it raises; the predictions of a
  fitted state; and its score on a data set, a float that may be \<open>nan\<close>.
\<close>

record 'f learner =
  fit_impl :: "hyper \<Rightarrow> ndarray \<Rightarrow> vector \<Rightarrow> py_error + 'f"
  predict_impl :: "'f \<Rightarrow> ndarray \<Rightarrow> vector"
  score_impl :: "'f \<Rightarrow> ndarray \<Rightarrow> vector \<Rightarrow> xreal"

text \<open>\<open>estimator.fit(X, y)\<close> fits the object in place and returns it.\<close>

definition est_fit :: "'f learner \<Rightarrow> 'f estimator \<Rightarrow> ndarray \<Rightarrow> vector \<Rightarrow> py_error + 'f estimator" where
  "est_fit L est X y =
     (case fit_impl L (hyper_params est) X y of
        Inl e \<Rightarrow> Inl e
      | Inr w \<Rightarrow> Inr (est\<lparr>fitted := Some w\<rparr>))"

text \<open>\<open>estimator.predict(X)\<close> raises \<open>NotFittedError\<close> on an estimator that is not fitted.\<close>

definition est_predict :: "'f learner \<Rightarrow> 'f estimator \<Rightarrow> ndarray \<Rightarrow> py_error + vector" where
  "est_predict L est X =
     (case fitted est of
        None \<Rightarrow> Inl NotFittedError
      | Some w \<Rightarrow> Inr (predict_impl L w X))"

text \<open>\<open>clone(estimator)\<close>: a new, unfitted estimator with the same hyper-parameters.\<close>

definition clone :: "'f estimator \<Rightarrow> 'f estimator" where
  "clone est = est\<lparr>fitted := None\<rparr>"

text \<open>
  \<open>estimator.set_params(**params)\<close> sets the named hyper-parameters one after another
  and raises \<open>ValueError\<close> for a name the estimator does not have.
\<close>

fun set_params :: "'f estimator \<Rightarrow> hyper \<Rightarrow> py_error + 'f estimator" where
  "set_params est [] = Inr est"
| "set_params est ((k, v) # rest) =
     (if k \<in> set (map fst (hyper_params est))
      then set_params (est\<lparr>hyper_params := AList.update k v (hyper_params est)\<rparr>) rest
      else Inl ValueError)"

text \<open>
  The rows of an array with the given indices, and the entries of a vector. The
  indices that the search uses are below the number of rows.
\<close>

definition row_size :: "ndarray \<Rightarrow> nat" where
  "row_size a = prod_list (tl (shape a))"

definition take_rows :: "ndarray \<Rightarrow> nat list \<Rightarrow> ndarray" where
  "take_rows a idx =
     \<lparr>shape = length idx # tl (shape a),
      data = concat (map (\<lambda>i. take (row_size a) (drop (i * row_size a) (data a))) idx)\<rparr>"

definition take_entries :: "vector \<Rightarrow> nat list \<Rightarrow> vector" where
  "take_entries y idx = map (\<lambda>i. y ! i) idx"

text \<open>
  \<open>cv=5\<close> stands for \<open>KFold(n_splits=5)\<close> without shuffling: the \<open>n\<close> samples are cut
  into \<open>k\<close> consecutive folds, the first \<open>n mod k\<close> of them one sample longer; each fold
  in turn is the test set and the other samples are the training set.
\<close>

definition kfold_split :: "nat \<Rightarrow> nat \<Rightarrow> (nat list \<times> nat list) list" where
  "kfold_split k n =
     map (\<lambda>i. let start = i * (n div k) + min i (n mod k);
                  stop = start + n div k + (if i < n mod k then 1 else 0)
              in ([0..<start] @ [stop..<n], [start..<stop]))
         [0..<k]"

text \<open>
  One candidate on one split: a clone of the estimator gets the candidate's
  hyper-parameters, is fitted on the training part and scored on the test part. An
  exception of \<open>set_params\<close> ends the search. An exception of \<open>fit\<close> does not: the
  fit counts as failed and its score is \<open>error_score\<close>, that is \<open>nan\<close>. The result is
  whether the fit failed, and the score.
\<close>

definition fit_and_score ::
  "'f learner \<Rightarrow> 'f estimator \<Rightarrow> ndarray \<Rightarrow> vector \<Rightarrow> hyper \<Rightarrow> nat list \<times> nat list \<Rightarrow>
   py_error + bool \<times> xreal" where
  "fit_and_score L est X y cand split =
     (case set_params (clone est) cand of
        Inl e \<Rightarrow> Inl e
      | Inr est' \<Rightarrow>
          (case fit_impl L (hyper_params est') (take_rows X (fst split)) (take_entries y (fst split)) of
             Inl _ \<Rightarrow> Inr (True, NaN)
           | Inr w \<Rightarrow>
               Inr (False, score_impl L w (take_rows X (snd split)) (take_entries y (snd split)))))"

text \<open>The results of a list of steps, or the first exception.\<close>

fun collect :: "(py_error + 'a) list \<Rightarrow> py_error + 'a list" where
  "collect [] = Inr []"
| "collect (Inl e # _) = Inl e"
| "collect (Inr x # rest) = (case collect rest of Inl e \<Rightarrow> Inl e | Inr xs \<Rightarrow> Inr (x # xs))"

text \<open>The mean of the scores of a candidate; it is \<open>nan\<close> as soon as one score is.\<close>

fun xadd :: "xreal \<Rightarrow> xreal \<Rightarrow> xreal" where
  "xadd NaN _ = NaN"
| "xadd _ NaN = NaN"
| "xadd (Fin a) (Fin b) = Fin (a + b)"
| "xadd PosInf NegInf = NaN"
| "xadd NegInf PosInf = NaN"
| "xadd PosInf _ = PosInf"
| "xadd _ PosInf = PosInf"
| "xadd NegInf _ = NegInf"
| "xadd _ NegInf = NegInf"

definition xmean :: "xreal list \<Rightarrow> xreal" where
  "xmean xs = xdiv (foldr xadd xs (Fin 0)) (Fin (real (length xs)))"

text \<open>
  The candidates are ranked by their mean test score, the highest first and those
  whose mean is \<open>nan\<close> last; \<open>best_index_\<close> is the first candidate of rank one.
  \<open>outranks a b\<close> says that the mean \<open>a\<close> is ranked strictly before the mean \<open>b\<close>.
\<close>

definition outranks :: "xreal \<Rightarrow> xreal \<Rightarrow> bool" where
  "outranks a b = (a \<noteq> NaN \<and> (b = NaN \<or> \<not> xle a b))"

fun best_index :: "xreal list \<Rightarrow> nat" where
  "best_index [] = 0"
| "best_index [m] = 0"
| "best_index (m # ms) = (let j = best_index ms in if outranks (ms ! j) m then Suc j else 0)"

text \<open>
  Every candidate on every split: for each candidate, in the order of the draw, the
  results of its fits, or the first exception of a \<open>set_params\<close>.
\<close>

definition evaluate_candidates ::
  "'f learner \<Rightarrow> 'f estimator \<Rightarrow> ndarray \<Rightarrow> vector \<Rightarrow> (nat list \<times> nat list) list \<Rightarrow> hyper list \<Rightarrow>
   py_error + (bool \<times> xreal) list list" where
  "evaluate_candidates L est X y splits cands =
     collect (map (\<lambda>cand. collect (map (fit_and_score L est X y cand) splits)) cands)"

text \<open>
  The mean test score of one candidate over the splits, when no \<open>set_params\<close> raises.
\<close>

definition cv_mean_score ::
  "'f learner \<Rightarrow> 'f estimator \<Rightarrow> ndarray \<Rightarrow> vector \<Rightarrow> (nat list \<times> nat list) list \<Rightarrow> hyper \<Rightarrow>
   py_error + xreal" where
  "cv_mean_score L est X y splits cand =
     (case collect (map (fit_and_score L est X y cand) splits) of
        Inl e \<Rightarrow> Inl e
      | Inr rs \<Rightarrow> Inr (xmean (map snd rs)))"

text \<open>
  The attributes \<open>best_estimator_\<close>, \<open>best_params_\<close> and
  \<open>cv_results_["mean_test_score"]\<close> of a fitted search.
\<close>

record 'f search_result =
  best_estimator' :: "'f estimator"
  best_params' :: hyper
  mean_test_score' :: "xreal list"

text \<open>
  \<open>RandomizedSearchCV(estimator, param_distributions, cv).fit(X, y)\<close> with the defaults
  \<open>n_iter=10\<close>, \<open>refit=True\<close> and \<open>error_score=nan\<close>. The candidates are drawn at random
  from the grid: the draw is the parameter \<open>sampler\<close>, which gets the grid and
  \<open>n_iter\<close>. The search raises \<open>ValueError\<close> when \<open>X\<close> and \<open>y\<close> differ in their number
  of samples, when there are fewer samples than folds, when there is no candidate and
  when every fit has failed. With \<open>refit=True\<close> it ends by fitting a clone of the
  estimator with the best hyper-parameters on all of \<open>X\<close> and \<open>y\<close>.
\<close>

type_synonym grid = "(string \<times> pyval list) list"

definition num_samples :: "ndarray \<Rightarrow> py_error + nat" where
  "num_samples a = (case shape a of [] \<Rightarrow> Inl TypeError | n # _ \<Rightarrow> Inr n)"

definition RandomizedSearchCV_fit ::
  "'f learner \<Rightarrow> (grid \<Rightarrow> nat \<Rightarrow> hyper list) \<Rightarrow> 'f estimator \<Rightarrow> grid \<Rightarrow> nat \<Rightarrow>
   ndarray \<Rightarrow> vector \<Rightarrow> py_error + 'f search_result" where
  "RandomizedSearchCV_fit L sampler est param_distributions cv X y =
     (case num_samples X of
        Inl e \<Rightarrow> Inl e
      | Inr n \<Rightarrow>
          if n \<noteq> length y then Inl ValueError
          else if n < cv then Inl ValueError
          else
            (let cands = sampler param_distributions 10 in
             if cands = [] then Inl ValueError
             else
               (case evaluate_candidates L est X y (kfold_split cv n) cands of
                  Inl e \<Rightarrow> Inl e
                | Inr out \<Rightarrow>
                    if list_all fst (concat out) then Inl ValueError
                    else
                      (let means = map (\<lambda>rs. xmean (map snd rs)) out;
                           best = cands ! best_index means
                       in (case set_params (clone est) best of
                             Inl e \<Rightarrow> Inl e
                           | Inr est' \<Rightarrow>
                               (case est_fit L est' X y of
                                  Inl e \<Rightarrow> Inl e
                                | Inr fitted_est \<Rightarrow>
                                    Inr \<lparr>best_estimator' = fitted_est, best_params' = best,
                                         mean_test_score' = means\<rparr>))))))"

subsection \<open>\<open>ModelTrainerOptimizerClass.train_model\<close>\<close>

text \<open>
  \<^verbatim>\<open>
  random_search = RandomizedSearchCV(estimator=model, param_distributions=param_grid, cv=5)
  random_search.fit(self.X_train, self.y_train)
  best_model = random_search.best_estimator_
  best_params = random_search.best_params_
  best_model.fit(self.X_train, self.y_train)
  predicted_y = best_model.predict(self.X_train)
  return best_model, best_params, predicted_y
  \<close>
  Reading \<open>self.X_train\<close> or \<open>self.y_train\<close> before the loader has set it raises
  \<open>AttributeError\<close>. The method assigns to no attribute of \<open>self\<close>.
\<close>

definition train_model ::
  "'f learner \<Rightarrow> (grid \<Rightarrow> nat \<Rightarrow> hyper list) \<Rightarrow> 'cfg trainer \<Rightarrow> 'f estimator \<Rightarrow> grid \<Rightarrow>
   py_error + 'f estimator \<times> hyper \<times> vector" where
  "train_model L sampler self model param_grid =
     (case X_train self of
        None \<Rightarrow> Inl AttributeError
      | Some X \<Rightarrow>
     (case y_train self of
        None \<Rightarrow> Inl AttributeError
      | Some y \<Rightarrow>
     (case RandomizedSearchCV_fit L sampler model param_grid 5 X y of
        Inl e \<Rightarrow> Inl e
      | Inr random_search \<Rightarrow>
     (let best_model = best_estimator' random_search;
          best_params = best_params' random_search
      in
     (case est_fit L best_model X y of
        Inl e \<Rightarrow> Inl e
      | Inr best_model \<Rightarrow>
     (case est_predict L best_model X of
        Inl e \<Rightarrow> Inl e
      | Inr predicted_y \<Rightarrow> Inr (best_model, best_params, predicted_y)))))))"

subsection \<open>The tracking client and \<open>MLflowLoggerClass\<close>\<close>

text \<open>
  The tracking client is a library; what the logger needs of it is modelled after its
  documented behaviour. A run has a name, a status and the metrics, parameters and
  model artifacts logged to it, each in the order of logging. The client keeps the
  tracking address and the stack of its active runs in process-wide state; the runs
  themselves live on the server.

  Every call of the client is a request to the server, and a request can fail: the
  server cannot be reached, or it refuses the request. Which requests succeed is a
  parameter \<open>accepts\<close> of the model; a failed request raises \<open>MlflowException\<close> and
  changes nothing.
\<close>

datatype run_status = RUNNING | FINISHED | FAILED

record 'm run =
  run_name :: string
  status :: run_status
  metrics :: "(string \<times> pyfloat) list"
  run_params :: "(string \<times> pyval) list"
  artifacts :: "(string \<times> 'm) list"

datatype 'm request =
    CreateRun string
  | LogMetric string pyfloat
  | LogParam string pyval
  | LogModel 'm string
  | SetTerminated run_status

record 'm mlflow =
  tracking_uri :: string
  active_run_stack :: "string list"
  server_runs :: "'m run list"
  console :: "string list"

text \<open>
  A logging call inside the run scope: the exception it raises, if any, and the run
  after it.
\<close>

type_synonym 'm action = "'m run \<Rightarrow> py_error option \<times> 'm run"

definition log_metric :: "('m request \<Rightarrow> bool) \<Rightarrow> string \<Rightarrow> pyfloat \<Rightarrow> 'm action" where
  "log_metric accepts key v r =
     (if accepts (LogMetric key v) then (None, r\<lparr>metrics := metrics r @ [(key, v)]\<rparr>)
      else (Some MlflowException, r))"

definition log_param :: "('m request \<Rightarrow> bool) \<Rightarrow> string \<Rightarrow> pyval \<Rightarrow> 'm action" where
  "log_param accepts key v r =
     (if accepts (LogParam key v) then (None, r\<lparr>run_params := run_params r @ [(key, v)]\<rparr>)
      else (Some MlflowException, r))"

definition log_model :: "('m request \<Rightarrow> bool) \<Rightarrow> 'm \<Rightarrow> string \<Rightarrow> 'm action" where
  "log_model accepts m path r =
     (if accepts (LogModel m path) then (None, r\<lparr>artifacts := artifacts r @ [(path, m)]\<rparr>)
      else (Some MlflowException, r))"

text \<open>One statement after another: an exception skips the statements that follow.\<close>

definition and_then :: "'m action \<Rightarrow> 'm action \<Rightarrow> 'm action" where
  "and_then f g r = (case f r of (None, r') \<Rightarrow> g r' | (Some e, r') \<Rightarrow> (Some e, r'))"

text \<open>
  \<open>MLflowLoggerClass.__init__\<close> keeps the address in the object and sets the client's
  process-wide tracking address.
\<close>

record logger =
  logger_uri :: string

definition MLflowLoggerClass :: "string \<Rightarrow> 'm mlflow \<Rightarrow> logger \<times> 'm mlflow" where
  "MLflowLoggerClass uri w = (\<lparr>logger_uri = uri\<rparr>, w\<lparr>tracking_uri := uri\<rparr>)"

text \<open>
  The loop \<open>for param_name, param_value in best_params.items()\<close>, over the entries
  of the dictionary in their order.
\<close>

fun log_best_params :: "('m request \<Rightarrow> bool) \<Rightarrow> hyper \<Rightarrow> 'm action" where
  "log_best_params accepts [] r = (None, r)"
| "log_best_params accepts ((param_name, param_value) # rest) r =
     (case log_param accepts (''Best '' @ param_name) param_value r of
        (None, r') \<Rightarrow> log_best_params accepts rest r'
      | (Some e, r') \<Rightarrow> (Some e, r'))"

text \<open>The logging calls of the \<open>with\<close> block of \<open>log_results\<close>, in their order.\<close>

definition log_results_body ::
  "('m request \<Rightarrow> bool) \<Rightarrow> string \<Rightarrow> 'm \<Rightarrow> hyper \<Rightarrow>
   pyfloat \<Rightarrow> pyfloat \<Rightarrow> pyfloat \<Rightarrow> pyfloat \<Rightarrow> pyfloat \<Rightarrow> 'm action" where
  "log_results_body accepts model_name best_model best_params mse mae rmse r2 aR2 =
     and_then (log_metric accepts ''MSE'' mse)
    (and_then (log_metric accepts ''MAE'' mae)
    (and_then (log_metric accepts ''RMSE'' rmse)
    (and_then (log_metric accepts ''R2'' r2)
    (and_then (log_metric accepts ''Adjusted R2'' aR2)
    (and_then (log_best_params accepts best_params)
              (log_model accepts best_model (model_name @ ''_model'')))))))"

text \<open>
  \<open>log_results\<close>. \<open>mlflow.start_run\<close> raises when a run is active already and when
  the server does not create the run; then nothing was logged. Otherwise the block runs
  in the scope of the new run. The five \<open>print\<close> statements close the block, so they
  run when no logging call has raised; \<open>fmt\<close> is the text that formatting a float gives.
  Leaving the block ends the run: the client pops its stack and asks the server to set
  the status, \<open>FINISHED\<close> after a normal exit and \<open>FAILED\<close> after an exception. The
  result is the exception that reaches the caller, if any, and the state afterwards.
\<close>

definition log_results ::
  "('m request \<Rightarrow> bool) \<Rightarrow> (pyfloat \<Rightarrow> string) \<Rightarrow> 'm mlflow \<Rightarrow> string \<Rightarrow> 'm \<Rightarrow> hyper \<Rightarrow>
   pyfloat \<Rightarrow> pyfloat \<Rightarrow> pyfloat \<Rightarrow> pyfloat \<Rightarrow> pyfloat \<Rightarrow> py_error option \<times> 'm mlflow" where
  "log_results accepts fmt w model_name best_model best_params mse mae rmse r2 aR2 =
     (if active_run_stack w \<noteq> [] then (Some MlflowException, w)
      else if \<not> accepts (CreateRun model_name) then (Some MlflowException, w)
      else
        (let r0 = \<lparr>run_name = model_name, status = RUNNING, metrics = [], run_params = [],
                   artifacts = []\<rparr>;
             (raised, r1) =
               log_results_body accepts model_name best_model best_params mse mae rmse r2 aR2 r0;
             out = (case raised of
                      None \<Rightarrow> console w @
                        [''MSE: '' @ fmt mse, ''MAE: '' @ fmt mae, ''RMSE: '' @ fmt rmse,
                         ''R2: '' @ fmt r2, ''Adjusted R2: '' @ fmt aR2]
                    | Some _ \<Rightarrow> console w);
             st = (case raised of None \<Rightarrow> FINISHED | Some _ \<Rightarrow> FAILED)
         in if accepts (SetTerminated st)
            then (raised, w\<lparr>server_runs := server_runs w @ [r1\<lparr>status := st\<rparr>], console := out\<rparr>)
            else (Some MlflowException, w\<lparr>server_runs := server_runs w @ [r1], console := out\<rparr>)))"

section \<open>Properties\<close>

subsection \<open>The metrics\<close>












text \<open>
  Claim C10. \<open>calculate_metrics\<close> reads of the feature matrix nothing but
  \<open>shape[1]\<close>: two matrices for which \<open>shape[1]\<close> gives the same outcome, whatever
  their row counts and entries, give the same result with the same target and prediction
  vectors, be it the same five values or the same exception.
\<close>

theorem calculate_metrics_same_columns:
  assumes "shape_at X1 1 = shape_at X2 1"
  shows "calculate_metrics sk X1 actual_y predicted_y =
         calculate_metrics sk X2 actual_y predicted_y"
  unfolding calculate_metrics_def assms by (rule refl)

theorem calculate_metrics_same_columns_witness:
  "shape_at \<lparr>shape = [3, 1], data = [7, 8, 9]\<rparr> 1 = shape_at \<lparr>shape = [5, 1], data = [0, 0, 1, 2, 4]\<rparr> 1 \<and>
   calculate_metrics python_float \<lparr>shape = [3, 1], data = [7, 8, 9]\<rparr> [0, 1, 2] [1, 1, 1] =
   calculate_metrics python_float \<lparr>shape = [5, 1], data = [0, 0, 1, 2, 4]\<rparr> [0, 1, 2] [1, 1, 1]"
proof -
  have h: "shape_at \<lparr>shape = [3, 1], data = [7, 8, 9]\<rparr> 1 =
           shape_at \<lparr>shape = [5, 1], data = [0, 0, 1, 2, 4]\<rparr> 1"
    by (simp add: shape_at_def)
  from h calculate_metrics_same_columns[OF h] show ?thesis by blast
qed















subsection \<open>Loading the target\<close>

lemma concat_nth_uniform:
  assumes "list_all (\<lambda>r. length r = c) xss" and "i < length xss" and "j < c"
  shows "concat xss ! (i * c + j) = xss ! i ! j"
  using assms
proof (induction xss arbitrary: i)
  case Nil
  then show ?case by simp
next
  case (Cons r xss)
  show ?case
  proof (cases i)
    case 0
    then show ?thesis using Cons.prems by (simp add: nth_append)
  next
    case (Suc k)
    have "concat (r # xss) ! (i * c + j) = concat xss ! (k * c + j)"
      using Cons.prems Suc by (simp add: nth_append)
    also have "\<dots> = xss ! k ! j"
      using Cons.prems Suc by (intro Cons.IH) auto
    finally show ?thesis using Suc by simp
  qed
qed

lemma length_concat_uniform:
  "list_all (\<lambda>r. length r = c) xss \<Longrightarrow> length (concat xss) = length xss * c"
  by (induction xss) auto

text \<open>
  Claim C7. \<open>load_y_train\<close> returns the loaded frame flattened to one dimension and
  keeps it in \<open>self.y_train\<close>. The frame may have any number of columns: the call does
  not fail for more than one, and the vector holds the cells row after row, the cell of
  row \<open>i\<close> and column \<open>j\<close> at position \<open>i * c + j\<close> for \<open>c\<close> columns.
\<close>

theorem load_y_train_flattens:
  assumes "read_csv fs (y_train_path self) = Inr df" and "well_formed df"
  shows "load_y_train fs self = Inr (concat (rows df), self\<lparr>y_train := Some (concat (rows df))\<rparr>) \<and>
         length (concat (rows df)) = length (rows df) * length (columns df) \<and>
         (\<forall>i < length (rows df). \<forall>j < length (columns df).
            concat (rows df) ! (i * length (columns df) + j) = rows df ! i ! j)"
  using assms
  by (simp add: load_y_train_def ravel_def np_array_def well_formed_def Let_def
      concat_nth_uniform length_concat_uniform)

theorem load_y_train_flattens_witness:
  "load_y_train \<lparr>read_csv = (\<lambda>p. if p = ''y.csv''
                                   then Inr \<lparr>columns = [''Price'', ''Tax''], rows = [[10, 1], [20, 2], [30, 3]]\<rparr>
                                   else Inl OSError),
                 safe_load = (\<lambda>p. Inl OSError :: py_error + unit)\<rparr>
     (ModelTrainerOptimizerClass ''X.csv'' ''y.csv'' ''params.yaml'')
   = Inr ([10, 1, 20, 2, 30, 3],
          (ModelTrainerOptimizerClass ''X.csv'' ''y.csv'' ''params.yaml'')
            \<lparr>y_train := Some [10, 1, 20, 2, 30, 3]\<rparr>)"
  using load_y_train_flattens
    [of "\<lparr>read_csv = (\<lambda>p. if p = ''y.csv''
                                   then Inr \<lparr>columns = [''Price'', ''Tax''], rows = [[10, 1], [20, 2], [30, 3]]\<rparr>
                                   else Inl OSError),
                 safe_load = (\<lambda>p. Inl OSError :: py_error + unit)\<rparr>"
        "ModelTrainerOptimizerClass ''X.csv'' ''y.csv'' ''params.yaml''"
        "\<lparr>columns = [''Price'', ''Tax''], rows = [[10, 1], [20, 2], [30, 3]]\<rparr>"]
  by (simp add: ModelTrainerOptimizerClass_def well_formed_def Let_def)

subsection \<open>The name of the model\<close>

text \<open>
  Claim C8. \<open>get_Model_Name\<close> returns the name of the class of the model, letter for
  letter: \<open>ElasticNet\<close> for an \<open>ElasticNet\<close> object, and for an object of any class
  the name of that class, whatever its hyper-parameters and whether it is fitted. It
  is a function of the model alone and changes no state.
\<close>

theorem get_Model_Name_exact:
  "get_Model_Name (ElasticNet :: 'f estimator) = ''ElasticNet'' \<and>
   get_Model_Name (model :: 'f estimator) = class_name model \<and>
   get_Model_Name (model\<lparr>hyper_params := h, fitted := w\<rparr>) = get_Model_Name model"
  by (simp add: get_Model_Name_def ElasticNet_def)

subsection \<open>Logging a run\<close>

lemma log_best_params_all_accepted:
  assumes "\<forall>q. accepts q"
  shows "log_best_params accepts bp r =
           (None, r\<lparr>run_params := run_params r @ map (\<lambda>(k, v). (''Best '' @ k, v)) bp\<rparr>)"
  using assms
  by (induction bp arbitrary: r) (auto simp: log_param_def)

text \<open>
  Claim C4. When no run is active and the server accepts every request, \<open>log_results\<close>
  creates one run, named after the model and finished, that holds the five metrics
  under the keys \<open>MSE\<close>, \<open>MAE\<close>, \<open>RMSE\<close>, \<open>R2\<close> and \<open>Adjusted R2\<close> and no other
  metric, every hyper-parameter under its name prefixed with \<open>Best \<close>, and the model
  as the one artifact, under the model name followed by \<open>_model\<close>.
\<close>

theorem log_results_records:
  assumes "\<forall>q. accepts q" and "active_run_stack w = []"
  shows "log_results accepts fmt w model_name best_model best_params mse mae rmse r2 aR2 =
     (None,
      w\<lparr>server_runs := server_runs w @
           [\<lparr>run_name = model_name, status = FINISHED,
             metrics = [(''MSE'', mse), (''MAE'', mae), (''RMSE'', rmse), (''R2'', r2),
                        (''Adjusted R2'', aR2)],
             run_params = map (\<lambda>(k, v). (''Best '' @ k, v)) best_params,
             artifacts = [(model_name @ ''_model'', best_model)]\<rparr>],
         console := console w @
           [''MSE: '' @ fmt mse, ''MAE: '' @ fmt mae, ''RMSE: '' @ fmt rmse,
            ''R2: '' @ fmt r2, ''Adjusted R2: '' @ fmt aR2]\<rparr>)"
  using assms
  by (simp add: log_results_def log_results_body_def and_then_def log_metric_def log_model_def
      log_best_params_all_accepted)

theorem log_results_records_witness:
  "log_results (\<lambda>q. True) (\<lambda>x. ''?'')
     \<lparr>tracking_uri = ''http://localhost:5000'', active_run_stack = [], server_runs = [],
      console = []\<rparr>
     ''ElasticNet'' (ElasticNet :: unit estimator)
     [(''alpha'', PFloat 1), (''l1_ratio'', PFloat (1 / 2))]
     (python_float, Fin 4) (python_float, Fin 2) (numpy_float64, Fin 2)
     (python_float, Fin 0) (python_float, Fin (- 1)) =
   (None,
    \<lparr>tracking_uri = ''http://localhost:5000'', active_run_stack = [],
     server_runs =
       [\<lparr>run_name = ''ElasticNet'', status = FINISHED,
         metrics = [(''MSE'', (python_float, Fin 4)), (''MAE'', (python_float, Fin 2)),
                    (''RMSE'', (numpy_float64, Fin 2)), (''R2'', (python_float, Fin 0)),
                    (''Adjusted R2'', (python_float, Fin (- 1)))],
         run_params = [(''Best alpha'', PFloat 1), (''Best l1_ratio'', PFloat (1 / 2))],
         artifacts = [(''ElasticNet_model'', ElasticNet)]\<rparr>],
     console = [''MSE: ?'', ''MAE: ?'', ''RMSE: ?'', ''R2: ?'', ''Adjusted R2: ?'']\<rparr>)"
  using log_results_records
    [of "\<lambda>q. True"
        "\<lparr>tracking_uri = ''http://localhost:5000'', active_run_stack = [], server_runs = [],
          console = []\<rparr>"
        "\<lambda>x. ''?''" "''ElasticNet''" "ElasticNet :: unit estimator"
        "[(''alpha'', PFloat 1), (''l1_ratio'', PFloat (1 / 2))]"
        "(python_float, Fin 4)" "(python_float, Fin 2)" "(numpy_float64, Fin 2)"
        "(python_float, Fin 0)" "(python_float, Fin (- 1))"]
  by simp






subsection \<open>Searching and refitting\<close>

lemma xle_total: "a \<noteq> NaN \<Longrightarrow> b \<noteq> NaN \<Longrightarrow> xle a b \<or> xle b a"
  by (cases a; cases b) auto

lemma xle_trans: "xle a b \<Longrightarrow> xle b c \<Longrightarrow> xle a c"
  by (cases a; cases b; cases c) auto

lemma xle_not_nan: "xle a b \<Longrightarrow> a \<noteq> NaN \<and> b \<noteq> NaN"
  by (cases a; cases b) auto

lemma outranks_asym: "outranks a b \<Longrightarrow> \<not> outranks b a"
  using xle_total[of a b] by (auto simp: outranks_def)

lemma not_outranks_trans:
  assumes "\<not> outranks a b" and "\<not> outranks b c"
  shows "\<not> outranks a c"
proof (cases "a = NaN")
  case True
  then show ?thesis by (simp add: outranks_def)
next
  case False
  with assms(1) have b: "b \<noteq> NaN" "xle a b" by (auto simp: outranks_def)
  with assms(2) have c: "c \<noteq> NaN" "xle b c" by (auto simp: outranks_def)
  from b(2) c(2) have "xle a c" by (rule xle_trans)
  with c(1) show ?thesis by (simp add: outranks_def)
qed

lemma not_outranks_refl: "\<not> outranks a a"
  using outranks_asym by blast

lemma best_index_less: "ms \<noteq> [] \<Longrightarrow> best_index ms < length ms"
  by (induction ms rule: best_index.induct) (auto simp: Let_def)

lemma best_index_best:
  "m \<in> set ms \<Longrightarrow> \<not> outranks m (ms ! best_index ms)"
proof (induction ms arbitrary: m rule: best_index.induct)
  case 1
  then show ?case by simp
next
  case (2 x)
  then show ?case by (simp add: not_outranks_refl)
next
  case (3 x y ys)
  let ?j = "best_index (y # ys)"
  show ?case
  proof (cases "outranks ((y # ys) ! ?j) x")
    case True
    then have idx: "(x # y # ys) ! best_index (x # y # ys) = (y # ys) ! ?j"
      by (simp add: Let_def)
    show ?thesis
    proof (cases "m = x")
      case True
      with \<open>outranks ((y # ys) ! ?j) x\<close> show ?thesis
        unfolding idx by (simp add: outranks_asym)
    next
      case False
      with "3.prems" have "m \<in> set (y # ys)" by simp
      then show ?thesis unfolding idx by (rule "3.IH")
    qed
  next
    case False
    then have idx: "(x # y # ys) ! best_index (x # y # ys) = x"
      by (simp add: Let_def)
    show ?thesis
    proof (cases "m = x")
      case True
      then show ?thesis unfolding idx by (simp add: not_outranks_refl)
    next
      case mx: False
      with "3.prems" have "m \<in> set (y # ys)" by simp
      then have "\<not> outranks m ((y # ys) ! ?j)" by (rule "3.IH")
      from this False show ?thesis unfolding idx by (rule not_outranks_trans)
    qed
  qed
qed

lemma collect_Inr_length: "collect xs = Inr ys \<Longrightarrow> length ys = length xs"
  by (induction xs arbitrary: ys rule: collect.induct) (auto split: sum.splits)

lemma collect_map_Inr: "collect (map Inr ys) = Inr ys"
  by (induction ys) auto

lemma collect_InrD: "collect xs = Inr ys \<Longrightarrow> xs = map Inr ys"
  by (induction xs arbitrary: ys rule: collect.induct) (auto split: sum.splits)

lemma set_params_names:
  "set_params est c = Inr est' \<Longrightarrow> set (map fst c) \<subseteq> set (map fst (hyper_params est))"
proof (induction est c rule: set_params.induct)
  case (1 est)
  then show ?case by simp
next
  case (2 est k v rest)
  then show ?case by (auto simp: AList.update_keys split: if_splits)
qed

lemma set_params_ok:
  "set (map fst c) \<subseteq> set (map fst (hyper_params est)) \<Longrightarrow> \<exists>est'. set_params est c = Inr est'"
proof (induction est c rule: set_params.induct)
  case (1 est)
  then show ?case by simp
next
  case (2 est k v rest)
  then show ?case by (auto simp: AList.update_keys)
qed

lemma length_kfold_split: "length (kfold_split k n) = k"
  by (simp add: kfold_split_def)

lemma fit_and_score_ok:
  assumes "\<forall>h X' y'. \<exists>w. fit_impl L h X' y' = Inr w"
    and "set (map fst c) \<subseteq> set (map fst (hyper_params est))"
  shows "\<exists>s. fit_and_score L est X y c sp = Inr (False, s)"
proof -
  have "set (map fst c) \<subseteq> set (map fst (hyper_params (clone est)))"
    using assms(2) by (simp add: clone_def)
  then obtain est' where e: "set_params (clone est) c = Inr est'"
    using set_params_ok by blast
  obtain w where "fit_impl L (hyper_params est') (take_rows X (fst sp)) (take_entries y (fst sp)) = Inr w"
    using assms(1) by blast
  then show ?thesis by (simp add: fit_and_score_def e)
qed

lemma candidate_scores_ok:
  assumes "\<forall>h X' y'. \<exists>w. fit_impl L h X' y' = Inr w"
    and "set (map fst c) \<subseteq> set (map fst (hyper_params est))"
  shows "\<exists>rs. collect (map (fit_and_score L est X y c) splits) = Inr rs \<and>
              length rs = length splits \<and> (\<forall>r \<in> set rs. \<not> fst r)"
proof -
  have "\<forall>sp. \<exists>s. fit_and_score L est X y c sp = Inr (False, s)"
    using fit_and_score_ok[OF assms] by blast
  then obtain sc where sc: "\<And>sp. fit_and_score L est X y c sp = Inr (False, sc sp)"
    by metis
  have "map (fit_and_score L est X y c) splits = map Inr (map (\<lambda>sp. (False, sc sp)) splits)"
    by (simp add: sc)
  then have "collect (map (fit_and_score L est X y c) splits) = Inr (map (\<lambda>sp. (False, sc sp)) splits)"
    by (simp only: collect_map_Inr)
  then show ?thesis by auto
qed

lemma evaluate_candidates_ok:
  assumes "\<forall>h X' y'. \<exists>w. fit_impl L h X' y' = Inr w"
    and "\<forall>c \<in> set cands. set (map fst c) \<subseteq> set (map fst (hyper_params est))"
  shows "\<exists>out. evaluate_candidates L est X y splits cands = Inr out \<and>
               length out = length cands \<and>
               (\<forall>rs \<in> set out. length rs = length splits \<and> (\<forall>r \<in> set rs. \<not> fst r))"
proof -
  have "\<forall>c \<in> set cands. \<exists>rs. collect (map (fit_and_score L est X y c) splits) = Inr rs \<and>
              length rs = length splits \<and> (\<forall>r \<in> set rs. \<not> fst r)"
    using candidate_scores_ok[OF assms(1)] assms(2) by blast
  then obtain res where res: "\<forall>c \<in> set cands.
       collect (map (fit_and_score L est X y c) splits) = Inr (res c) \<and>
       length (res c) = length splits \<and> (\<forall>r \<in> set (res c). \<not> fst r)"
    by metis
  have "map (\<lambda>cand. collect (map (fit_and_score L est X y cand) splits)) cands
          = map Inr (map res cands)"
    using res by simp
  then have "evaluate_candidates L est X y splits cands = Inr (map res cands)"
    unfolding evaluate_candidates_def by (simp only: collect_map_Inr)
  then show ?thesis using res by auto
qed

lemma evaluate_candidates_InrD:
  assumes "evaluate_candidates L est X y splits cands = Inr out" and "i < length cands"
  shows "length out = length cands"
    and "cv_mean_score L est X y splits (cands ! i) = Inr (xmean (map snd (out ! i)))"
proof -
  have m: "map (\<lambda>cand. collect (map (fit_and_score L est X y cand) splits)) cands = map Inr out"
    using assms(1) unfolding evaluate_candidates_def by (rule collect_InrD)
  then have "length cands = length out"
    by (metis length_map)
  then show "length out = length cands" by simp
  from m have "map (\<lambda>cand. collect (map (fit_and_score L est X y cand) splits)) cands ! i
                 = map Inr out ! i"
    by simp
  then have "collect (map (fit_and_score L est X y (cands ! i)) splits) = Inr (out ! i)"
    using assms(2) \<open>length out = length cands\<close> by simp
  then show "cv_mean_score L est X y splits (cands ! i) = Inr (xmean (map snd (out ! i)))"
    by (simp add: cv_mean_score_def)
qed

lemma RandomizedSearchCV_fit_InrD:
  assumes "RandomizedSearchCV_fit L sampler est param_grid cv X y = Inr sr"
  shows "\<exists>out m0.
      num_samples X = Inr (length y) \<and> cv \<le> length y \<and> sampler param_grid 10 \<noteq> [] \<and>
      evaluate_candidates L est X y (kfold_split cv (length y)) (sampler param_grid 10) = Inr out \<and>
      mean_test_score' sr = map (\<lambda>rs. xmean (map snd rs)) out \<and>
      best_params' sr = sampler param_grid 10 ! best_index (mean_test_score' sr) \<and>
      set_params (clone est) (best_params' sr) = Inr m0 \<and>
      est_fit L m0 X y = Inr (best_estimator' sr)"
  using assms
  by (auto simp: RandomizedSearchCV_fit_def Let_def split: sum.splits if_splits)

lemma RandomizedSearchCV_fit_best:
  assumes "RandomizedSearchCV_fit L sampler est param_grid cv X y = Inr sr"
  shows "best_params' sr \<in> set (sampler param_grid 10)"
    and "\<exists>sb. cv_mean_score L est X y (kfold_split cv (length y)) (best_params' sr) = Inr sb \<and>
           (\<forall>c \<in> set (sampler param_grid 10).
              \<exists>s. cv_mean_score L est X y (kfold_split cv (length y)) c = Inr s \<and> \<not> outranks s sb)"
proof -
  let ?cands = "sampler param_grid 10"
  let ?splits = "kfold_split cv (length y)"
  let ?means = "mean_test_score' sr"
  from RandomizedSearchCV_fit_InrD[OF assms] obtain out where
    ne: "?cands \<noteq> []" and
    ev: "evaluate_candidates L est X y ?splits ?cands = Inr out" and
    means: "?means = map (\<lambda>rs. xmean (map snd rs)) out" and
    best: "best_params' sr = ?cands ! best_index ?means"
    by blast
  have len: "length out = length ?cands"
    using ne evaluate_candidates_InrD(1)[OF ev, of 0] by simp
  then have lm: "length ?means = length ?cands" by (simp add: means)
  with ne have "?means \<noteq> []" by auto
  then have bi: "best_index ?means < length ?cands"
    using best_index_less[of ?means] lm by simp
  then show "best_params' sr \<in> set ?cands" by (simp add: best)
  have score: "cv_mean_score L est X y ?splits (?cands ! i) = Inr (?means ! i)"
    if "i < length ?cands" for i
    using evaluate_candidates_InrD(2)[OF ev that] that len by (simp add: means)
  have "\<exists>s. cv_mean_score L est X y ?splits c = Inr s \<and>
          \<not> outranks s (?means ! best_index ?means)"
    if "c \<in> set ?cands" for c
  proof -
    from that obtain i where i: "i < length ?cands" "c = ?cands ! i"
      by (auto simp: in_set_conv_nth)
    then have "?means ! i \<in> set ?means" using lm by simp
    then have "\<not> outranks (?means ! i) (?means ! best_index ?means)"
      by (rule best_index_best)
    with score[OF i(1)] i(2) show ?thesis by simp
  qed
  with score[OF bi] best
  show "\<exists>sb. cv_mean_score L est X y ?splits (best_params' sr) = Inr sb \<and>
           (\<forall>c \<in> set ?cands. \<exists>s. cv_mean_score L est X y ?splits c = Inr s \<and> \<not> outranks s sb)"
    by auto
qed

lemma RandomizedSearchCV_fit_ok:
  assumes "num_samples X = Inr (length y)" and "cv \<le> length y" and "0 < cv"
    and "sampler param_grid 10 \<noteq> []"
    and names: "\<forall>c \<in> set (sampler param_grid 10). set (map fst c) \<subseteq> set (map fst (hyper_params est))"
    and fits: "\<forall>h X' y'. \<exists>w. fit_impl L h X' y' = Inr w"
  shows "\<exists>sr. RandomizedSearchCV_fit L sampler est param_grid cv X y = Inr sr"
proof -
  let ?cands = "sampler param_grid 10"
  let ?splits = "kfold_split cv (length y)"
  from evaluate_candidates_ok[OF fits names, of X y ?splits] obtain out where
    ev: "evaluate_candidates L est X y ?splits ?cands = Inr out" and
    len: "length out = length ?cands" and
    rows: "\<forall>rs \<in> set out. length rs = length ?splits \<and> (\<forall>r \<in> set rs. \<not> fst r)"
    by blast
  from len assms(4) obtain rs0 where rs0: "rs0 \<in> set out"
    by (cases out) auto
  with rows assms(3) have "rs0 \<noteq> []" by (auto simp: length_kfold_split)
  then obtain r0 where "r0 \<in> set rs0" by (cases rs0) auto
  with rs0 rows have "r0 \<in> set (concat out)" "\<not> fst r0" by auto
  then have nf: "\<not> list_all fst (concat out)"
    unfolding list_all_iff by blast
  let ?means = "map (\<lambda>rs. xmean (map snd rs)) out"
  have "?means \<noteq> []" using len assms(4) by auto
  then have "best_index ?means < length ?cands"
    using best_index_less[of ?means] len by simp
  then have "?cands ! best_index ?means \<in> set ?cands" by simp
  with names have "set (map fst (?cands ! best_index ?means)) \<subseteq> set (map fst (hyper_params (clone est)))"
    by (simp add: clone_def)
  then obtain m0 where m0: "set_params (clone est) (?cands ! best_index ?means) = Inr m0"
    using set_params_ok by blast
  obtain w where "fit_impl L (hyper_params m0) X y = Inr w" using fits by blast
  then have "\<exists>m1. est_fit L m0 X y = Inr m1" by (simp add: est_fit_def)
  then show ?thesis
    using assms(1,2,4) ev nf m0
    by (auto simp: RandomizedSearchCV_fit_def Let_def)
qed

lemma est_fit_fitted: "est_fit L est X y = Inr est' \<Longrightarrow> \<exists>w. fitted est' = Some w"
  by (auto simp: est_fit_def split: sum.splits)

text \<open>
  Claim C6. \<open>train_model\<close> runs the randomized search with five folds on the training
  set that the loaders have stored, over the candidates drawn from the given grid for
  the given model. When it returns, the hyper-parameters it returns are those of a
  candidate whose mean cross-validated score no candidate outranks; the model it returns
  is a clone of the given model with these hyper-parameters, fitted on the whole training
  set by the search and fitted on it once more by \<open>train_model\<close>; and the predictions it
  returns are those of this model on the same training set. It does return when the
  training set has at least five samples and as many targets, the draw has a candidate,
  the candidates name hyper-parameters of the model, and no fit fails.
\<close>

theorem train_model_search_refit:
  assumes "X_train self = Some X" and "y_train self = Some y"
  shows "(num_samples X = Inr (length y) \<and> 5 \<le> length y \<and> sampler param_grid 10 \<noteq> [] \<and>
          (\<forall>c \<in> set (sampler param_grid 10).
             set (map fst c) \<subseteq> set (map fst (hyper_params model))) \<and>
          (\<forall>h X' y'. \<exists>w. fit_impl L h X' y' = Inr w)
          \<longrightarrow> (\<exists>r. train_model L sampler self model param_grid = Inr r)) \<and>
         (\<forall>best_model best_params predicted_y.
            train_model L sampler self model param_grid = Inr (best_model, best_params, predicted_y)
            \<longrightarrow> best_params \<in> set (sampler param_grid 10) \<and>
                (\<exists>sb. cv_mean_score L model X y (kfold_split 5 (length y)) best_params = Inr sb \<and>
                   (\<forall>c \<in> set (sampler param_grid 10).
                      \<exists>s. cv_mean_score L model X y (kfold_split 5 (length y)) c = Inr s \<and>
                          \<not> outranks s sb)) \<and>
                (\<exists>m0 m1. set_params (clone model) best_params = Inr m0 \<and>
                   est_fit L m0 X y = Inr m1 \<and> est_fit L m1 X y = Inr best_model) \<and>
                est_predict L best_model X = Inr predicted_y)"
proof (intro conjI impI allI)
  assume c: "num_samples X = Inr (length y) \<and> 5 \<le> length y \<and> sampler param_grid 10 \<noteq> [] \<and>
          (\<forall>c \<in> set (sampler param_grid 10).
             set (map fst c) \<subseteq> set (map fst (hyper_params model))) \<and>
          (\<forall>h X' y'. \<exists>w. fit_impl L h X' y' = Inr w)"
  then have fits: "\<forall>h X' y'. \<exists>w. fit_impl L h X' y' = Inr w" by blast
  from c obtain sr where sr: "RandomizedSearchCV_fit L sampler model param_grid 5 X y = Inr sr"
    using RandomizedSearchCV_fit_ok[of X y 5 sampler param_grid model L] by auto
  obtain w where "fit_impl L (hyper_params (best_estimator' sr)) X y = Inr w"
    using fits by blast
  then have "est_fit L (best_estimator' sr) X y = Inr ((best_estimator' sr)\<lparr>fitted := Some w\<rparr>)"
    by (simp add: est_fit_def)
  then show "\<exists>r. train_model L sampler self model param_grid = Inr r"
    using assms sr by (simp add: train_model_def est_predict_def)
next
  fix best_model best_params predicted_y
  assume t: "train_model L sampler self model param_grid = Inr (best_model, best_params, predicted_y)"
  then obtain sr where
    sr: "RandomizedSearchCV_fit L sampler model param_grid 5 X y = Inr sr" and
    bp: "best_params = best_params' sr" and
    refit: "est_fit L (best_estimator' sr) X y = Inr best_model" and
    pred: "est_predict L best_model X = Inr predicted_y"
    using assms by (auto simp: train_model_def Let_def split: sum.splits)
  show "best_params \<in> set (sampler param_grid 10)"
    unfolding bp by (rule RandomizedSearchCV_fit_best(1)[OF sr])
  show "\<exists>sb. cv_mean_score L model X y (kfold_split 5 (length y)) best_params = Inr sb \<and>
          (\<forall>c \<in> set (sampler param_grid 10).
             \<exists>s. cv_mean_score L model X y (kfold_split 5 (length y)) c = Inr s \<and> \<not> outranks s sb)"
    unfolding bp by (rule RandomizedSearchCV_fit_best(2)[OF sr])
  from RandomizedSearchCV_fit_InrD[OF sr] obtain m0 where
    "set_params (clone model) (best_params' sr) = Inr m0" "est_fit L m0 X y = Inr (best_estimator' sr)"
    by blast
  with refit show "\<exists>m0 m1. set_params (clone model) best_params = Inr m0 \<and>
                   est_fit L m0 X y = Inr m1 \<and> est_fit L m1 X y = Inr best_model"
    unfolding bp by blast
  show "est_predict L best_model X = Inr predicted_y" by (rule pred)
qed

lemma train_model_example:
  "train_model
     \<lparr>fit_impl = (\<lambda>h X y. Inr (case map_of h ''alpha'' of Some (PFloat a) \<Rightarrow> a | _ \<Rightarrow> 0)),
           predict_impl = (\<lambda>w X. replicate (hd (shape X)) w),
           score_impl = (\<lambda>w X y. Fin (- sum_list (map (\<lambda>v. (v - w)\<^sup>2) y)))\<rparr>
     (\<lambda>g n. [[(''alpha'', PFloat 0)], [(''alpha'', PFloat 1)]])
     \<lparr>X_train_path = ''X.csv'', y_train_path = ''y.csv'', params_path = ''params.yaml'',
           X_train = Some \<lparr>shape = [5, 1], data = [1, 2, 3, 4, 5]\<rparr>,
           y_train = Some [1, 1, 1, 1, 1], params = (None :: unit option)\<rparr>
     ElasticNet [(''alpha'', [PFloat 0, PFloat 1])]
   = Inr (((ElasticNet :: real estimator)
              \<lparr>hyper_params := AList.update ''alpha'' (PFloat 1) (hyper_params (ElasticNet :: real estimator)),
               fitted := Some 1\<rparr>), [(''alpha'', PFloat 1)], [1, 1, 1, 1, 1])"
  by (simp add: train_model_def RandomizedSearchCV_fit_def num_samples_def evaluate_candidates_def
      kfold_split_def fit_and_score_def clone_def ElasticNet_def take_rows_def take_entries_def
      row_size_def xmean_def outranks_def est_fit_def est_predict_def Let_def upt_rec)
    (simp add: eval_nat_numeral)

theorem train_model_search_refit_witness:
  "(\<exists>r. train_model
           \<lparr>fit_impl = (\<lambda>h X y. Inr (case map_of h ''alpha'' of Some (PFloat a) \<Rightarrow> a | _ \<Rightarrow> 0)),
           predict_impl = (\<lambda>w X. replicate (hd (shape X)) w),
           score_impl = (\<lambda>w X y. Fin (- sum_list (map (\<lambda>v. (v - w)\<^sup>2) y)))\<rparr>
           (\<lambda>g n. [[(''alpha'', PFloat 0)], [(''alpha'', PFloat 1)]])
           \<lparr>X_train_path = ''X.csv'', y_train_path = ''y.csv'', params_path = ''params.yaml'',
           X_train = Some \<lparr>shape = [5, 1], data = [1, 2, 3, 4, 5]\<rparr>,
           y_train = Some [1, 1, 1, 1, 1], params = (None :: unit option)\<rparr>
           ElasticNet [(''alpha'', [PFloat 0, PFloat 1])] = Inr r) \<and>
   [(''alpha'', PFloat 1)] \<in> set ((\<lambda>g n. [[(''alpha'', PFloat 0)], [(''alpha'', PFloat 1)]]) [(''alpha'', [PFloat 0, PFloat 1])] 10) \<and>
   (\<exists>sb. cv_mean_score
           \<lparr>fit_impl = (\<lambda>h X y. Inr (case map_of h ''alpha'' of Some (PFloat a) \<Rightarrow> a | _ \<Rightarrow> 0)),
           predict_impl = (\<lambda>w X. replicate (hd (shape X)) w),
           score_impl = (\<lambda>w X y. Fin (- sum_list (map (\<lambda>v. (v - w)\<^sup>2) y)))\<rparr>
           ElasticNet \<lparr>shape = [5, 1], data = [1, 2, 3, 4, 5]\<rparr> [1, 1, 1, 1, 1]
           (kfold_split 5 (length [1, 1, 1, 1, 1 :: real])) [(''alpha'', PFloat 1)] = Inr sb \<and>
      (\<forall>c \<in> set ((\<lambda>g n. [[(''alpha'', PFloat 0)], [(''alpha'', PFloat 1)]]) [(''alpha'', [PFloat 0, PFloat 1])] 10).
         \<exists>s. cv_mean_score
           \<lparr>fit_impl = (\<lambda>h X y. Inr (case map_of h ''alpha'' of Some (PFloat a) \<Rightarrow> a | _ \<Rightarrow> 0)),
           predict_impl = (\<lambda>w X. replicate (hd (shape X)) w),
           score_impl = (\<lambda>w X y. Fin (- sum_list (map (\<lambda>v. (v - w)\<^sup>2) y)))\<rparr>
           ElasticNet \<lparr>shape = [5, 1], data = [1, 2, 3, 4, 5]\<rparr> [1, 1, 1, 1, 1]
           (kfold_split 5 (length [1, 1, 1, 1, 1 :: real])) c = Inr s \<and> \<not> outranks s sb)) \<and>
   (\<exists>m0 m1. set_params (clone (ElasticNet :: real estimator)) [(''alpha'', PFloat 1)] = Inr m0 \<and>
      est_fit
           \<lparr>fit_impl = (\<lambda>h X y. Inr (case map_of h ''alpha'' of Some (PFloat a) \<Rightarrow> a | _ \<Rightarrow> 0)),
           predict_impl = (\<lambda>w X. replicate (hd (shape X)) w),
           score_impl = (\<lambda>w X y. Fin (- sum_list (map (\<lambda>v. (v - w)\<^sup>2) y)))\<rparr>
           m0 \<lparr>shape = [5, 1], data = [1, 2, 3, 4, 5]\<rparr> [1, 1, 1, 1, 1] = Inr m1 \<and>
      est_fit
           \<lparr>fit_impl = (\<lambda>h X y. Inr (case map_of h ''alpha'' of Some (PFloat a) \<Rightarrow> a | _ \<Rightarrow> 0)),
           predict_impl = (\<lambda>w X. replicate (hd (shape X)) w),
           score_impl = (\<lambda>w X y. Fin (- sum_list (map (\<lambda>v. (v - w)\<^sup>2) y)))\<rparr>
           m1 \<lparr>shape = [5, 1], data = [1, 2, 3, 4, 5]\<rparr> [1, 1, 1, 1, 1] =
        Inr ((ElasticNet :: real estimator)
              \<lparr>hyper_params := AList.update ''alpha'' (PFloat 1) (hyper_params (ElasticNet :: real estimator)),
               fitted := Some 1\<rparr>)) \<and>
   est_predict
           \<lparr>fit_impl = (\<lambda>h X y. Inr (case map_of h ''alpha'' of Some (PFloat a) \<Rightarrow> a | _ \<Rightarrow> 0)),
           predict_impl = (\<lambda>w X. replicate (hd (shape X)) w),
           score_impl = (\<lambda>w X y. Fin (- sum_list (map (\<lambda>v. (v - w)\<^sup>2) y)))\<rparr>
           ((ElasticNet :: real estimator)
              \<lparr>hyper_params := AList.update ''alpha'' (PFloat 1) (hyper_params (ElasticNet :: real estimator)),
               fitted := Some 1\<rparr>)
           \<lparr>shape = [5, 1], data = [1, 2, 3, 4, 5]\<rparr> = Inr [1, 1, 1, 1, 1]"
proof -
  let ?L = "\<lparr>fit_impl = (\<lambda>h X y. Inr (case map_of h ''alpha'' of Some (PFloat a) \<Rightarrow> a | _ \<Rightarrow> 0)),
           predict_impl = (\<lambda>w X. replicate (hd (shape X)) w),
           score_impl = (\<lambda>w X y. Fin (- sum_list (map (\<lambda>v. (v - w)\<^sup>2) y)))\<rparr>"
  let ?S = "(\<lambda>g n. [[(''alpha'', PFloat 0)], [(''alpha'', PFloat 1)]]) :: grid \<Rightarrow> nat \<Rightarrow> hyper list"
  let ?self = "\<lparr>X_train_path = ''X.csv'', y_train_path = ''y.csv'', params_path = ''params.yaml'',
           X_train = Some \<lparr>shape = [5, 1], data = [1, 2, 3, 4, 5]\<rparr>,
           y_train = Some [1, 1, 1, 1, 1], params = (None :: unit option)\<rparr>"
  let ?G = "[(''alpha'', [PFloat 0, PFloat 1])]"
  let ?X = "\<lparr>shape = [5, 1], data = [1, 2, 3, 4, 5]\<rparr>"
  let ?y = "[1, 1, 1, 1, 1] :: real list"
  have lx: "X_train ?self = Some ?X" and ly: "y_train ?self = Some ?y"
    by simp_all
  note th = train_model_search_refit
    [OF lx ly, where L = ?L and sampler = ?S and model = "ElasticNet :: real estimator"
       and param_grid = ?G]
  have pre: "num_samples ?X = Inr (length ?y) \<and> 5 \<le> length ?y \<and> ?S ?G 10 \<noteq> [] \<and>
          (\<forall>c \<in> set (?S ?G 10).
             set (map fst c) \<subseteq> set (map fst (hyper_params (ElasticNet :: real estimator)))) \<and>
          (\<forall>h X' y'. \<exists>w. fit_impl ?L h X' y' = Inr w)"
    by (simp add: num_samples_def ElasticNet_def)
  have a: "\<exists>r. train_model ?L ?S ?self ElasticNet ?G = Inr r"
    by (rule mp[OF th[THEN conjunct1] pre])
  have b: "[(''alpha'', PFloat 1)] \<in> set (?S ?G 10) \<and>
        (\<exists>sb. cv_mean_score ?L ElasticNet ?X ?y (kfold_split 5 (length ?y)) [(''alpha'', PFloat 1)]
                 = Inr sb \<and>
           (\<forall>c \<in> set (?S ?G 10).
              \<exists>s. cv_mean_score ?L ElasticNet ?X ?y (kfold_split 5 (length ?y)) c = Inr s \<and>
                  \<not> outranks s sb)) \<and>
        (\<exists>m0 m1. set_params (clone (ElasticNet :: real estimator)) [(''alpha'', PFloat 1)] = Inr m0 \<and>
           est_fit ?L m0 ?X ?y = Inr m1 \<and>
           est_fit ?L m1 ?X ?y = Inr ((ElasticNet :: real estimator)
              \<lparr>hyper_params := AList.update ''alpha'' (PFloat 1) (hyper_params (ElasticNet :: real estimator)),
               fitted := Some 1\<rparr>)) \<and>
        est_predict ?L ((ElasticNet :: real estimator)
              \<lparr>hyper_params := AList.update ''alpha'' (PFloat 1) (hyper_params (ElasticNet :: real estimator)),
               fitted := Some 1\<rparr>) ?X = Inr ?y"
    by (rule th[THEN conjunct2, THEN spec, THEN spec, THEN spec, THEN mp, OF train_model_example])
  from a b show ?thesis by (rule conjI)
qed

end
